theory Spec2Isabelle
  imports Main
begin

section \<open>Time\<close>

text \<open>
  Instants and durations count nanoseconds, as Go's \<^verbatim>\<open>time.Duration\<close> does.
  An instant is an integer on one fixed axis; \<^verbatim>\<open>t.Add(d)\<close> is \<open>t + d\<close>.
  A \<^verbatim>\<open>Duration\<close> is a signed 64-bit count: \<^verbatim>\<open>t.Sub(u)\<close>, and with it
  \<^verbatim>\<open>time.Until(t)\<close>, gives the difference when it fits and the largest or smallest
  \<^verbatim>\<open>Duration\<close> otherwise. \<^verbatim>\<open>time.Sleep(d)\<close> returns at once when \<open>d\<close> is not
  positive, and not before \<open>d\<close> has passed otherwise: \<open>sleepEnd now d\<close> is the
  earliest instant at which a sleep begun at \<open>now\<close> is over.
\<close>

type_synonym time = int

definition Second :: int where
  "Second = 1000000000"

definition Minute :: int where
  "Minute = 60 * Second"

definition Hour :: int where
  "Hour = 60 * Minute"

definition maxDuration :: int where
  "maxDuration = 9223372036854775807"

definition minDuration :: int where
  "minDuration = - 9223372036854775808"

definition time_Sub :: "time \<Rightarrow> time \<Rightarrow> int" where
  "time_Sub t u =
     (if maxDuration < t - u then maxDuration
      else if t - u < minDuration then minDuration
      else t - u)"

definition time_Until :: "time \<Rightarrow> time \<Rightarrow> int" where
  "time_Until t now = time_Sub t now"

definition sleepEnd :: "time \<Rightarrow> int \<Rightarrow> time" where
  "sleepEnd now d = (if d \<le> 0 then now else now + d)"

section \<open>Data of the proxy\<close>

text \<open>
  The repository holds two versions of the program. They agree word for word on
  \<^verbatim>\<open>refreshCredentials\<close>, \<^verbatim>\<open>handleChatCompletions\<close> and \<^verbatim>\<open>main\<close>; the model
  catalog, its two handlers and the routes for them are in the later one, which is the
  one followed here.
\<close>

record Config =
  ProjectID :: string
  Location :: string
  EndpointID :: string

text \<open>
  \<^verbatim>\<open>oauth2.Token\<close>: the two fields the program reads. \<^verbatim>\<open>google.Credentials\<close>: the
  token source the request handler hands to the HTTP client; the token source itself is
  an object of the library, kept abstract as \<open>'ts\<close>.
\<close>

record Token =
  AccessToken :: string
  Expiry :: time

record 'ts Credentials =
  TokenSource :: 'ts

record CorsConfig =
  AllowOrigins :: "string list"
  AllowMethods :: "string list"
  AllowHeaders :: "string list"
  ExposeHeaders :: "string list"
  AllowCredentials :: bool
  MaxAge :: int

datatype middleware = Logger | Recovery | Cors CorsConfig

datatype handler =
  HandleChatCompletions | HandleOptions | HandleListModels | HandleRetrieveModel

text \<open>The gin engine: the middleware in use and the registered (method, pattern, handler).\<close>

record Engine =
  used :: "middleware list"
  routes :: "(string \<times> string \<times> handler) list"

record 'ts Server =
  config :: Config
  credential :: "'ts Credentials option"
  router :: Engine

text \<open>
  The process: the server object, the refresh goroutines that \<^verbatim>\<open>go func()\<close> has started
  and that have not yet returned from their \<^verbatim>\<open>time.Sleep\<close> (each with the token its
  closure captured), the clock, the lines written by \<^verbatim>\<open>log\<close>, the bound address, and
  whether \<^verbatim>\<open>log.Fatalf\<close> has ended the process.
\<close>

record 'ts Process =
  server :: "'ts Server"
  pending :: "Token list"
  clock :: time
  logged :: "string list"
  listening :: "string option"
  exited :: bool

section \<open>The credential manager\<close>

definition gin_Default :: Engine where
  "gin_Default = \<lparr>used = [Logger, Recovery], routes = []\<rparr>"

definition NewServer :: "Config \<Rightarrow> 'ts Server" where
  "NewServer cfg = \<lparr>config = cfg, credential = None, router = gin_Default\<rparr>"

text \<open>
  \<^verbatim>\<open>refreshCredentials\<close>. The identity provider is the environment: \<open>found\<close> is what
  \<^verbatim>\<open>google.FindDefaultCredentials\<close> returns at this attempt and \<open>tokenOf\<close> what
  \<^verbatim>\<open>TokenSource.Token()\<close> returns on the credentials found (\<open>Inl\<close> is the error's
  message). The result is the returned error (\<open>None\<close> for \<^verbatim>\<open>nil\<close>) and the process
  afterwards: on success the credentials are stored and one goroutine is started.
\<close>

definition refreshCredentials ::
  "string + 'ts Credentials \<Rightarrow> ('ts \<Rightarrow> string + Token) \<Rightarrow> 'ts Process
     \<Rightarrow> string option \<times> 'ts Process" where
  "refreshCredentials found tokenOf p =
     (case found of
        Inl err \<Rightarrow> (Some (''failed to get credentials: '' @ err), p)
      | Inr creds \<Rightarrow>
          (case tokenOf (TokenSource creds) of
             Inl err \<Rightarrow> (Some (''failed to get token: '' @ err), p)
           | Inr token \<Rightarrow>
               (None, p\<lparr>server := (server p)\<lparr>credential := Some creds\<rparr>,
                        pending := pending p @ [token]\<rparr>)))"

text \<open>
  The goroutine's body: \<^verbatim>\<open>time.Sleep(time.Until(token.Expiry.Add(-5 * time.Minute)))\<close>,
  then one call of \<^verbatim>\<open>refreshCredentials\<close>, whose error is logged and dropped.
  \<open>wakeAt\<close> is the instant \<^verbatim>\<open>token.Expiry.Add(-5 * time.Minute)\<close>.
  \<open>goroutine i t\<close> lets the \<open>i\<close>-th pending goroutine return from its sleep at instant
  \<open>t\<close>; it is \<open>None\<close> when that goroutine does not exist or its sleep cannot be
  over at \<open>t\<close>. The goroutine reads the clock for \<^verbatim>\<open>time.Until\<close> when it is started,
  and that instant is \<open>clock p\<close>: the clock of the process moves only when a goroutine
  wakes, and the one that wakes starts the next. (A goroutine that reads the clock later
  has the same earliest wake-up or a later one.)
\<close>

definition wakeAt :: "Token \<Rightarrow> time" where
  "wakeAt token = Expiry token + (- 5 * Minute)"

definition goroutine ::
  "nat \<Rightarrow> time \<Rightarrow> string + 'ts Credentials \<Rightarrow> ('ts \<Rightarrow> string + Token) \<Rightarrow> 'ts Process
     \<Rightarrow> 'ts Process option" where
  "goroutine i t found tokenOf p =
     (if i < length (pending p) \<and>
         sleepEnd (clock p) (time_Until (wakeAt (pending p ! i)) (clock p)) \<le> t then
        (let p1 = p\<lparr>pending := take i (pending p) @ drop (Suc i) (pending p), clock := t\<rparr>
         in case refreshCredentials found tokenOf p1 of
              (Some err, p2) \<Rightarrow>
                Some (p2\<lparr>logged := logged p2 @ [''Failed to refresh credentials: '' @ err]\<rparr>)
            | (None, p2) \<Rightarrow> Some p2)
      else None)"

section \<open>Start-up\<close>

definition corsConfig :: CorsConfig where
  "corsConfig =
     \<lparr>AllowOrigins = [''*''],
      AllowMethods = [''GET'', ''POST'', ''PUT'', ''PATCH'', ''DELETE'', ''HEAD'', ''OPTIONS''],
      AllowHeaders = [''*''],
      ExposeHeaders = [''*''],
      AllowCredentials = True,
      MaxAge = 12 * Hour\<rparr>"

definition setupRoutes :: "'ts Server \<Rightarrow> 'ts Server" where
  "setupRoutes s =
     s\<lparr>router :=
         \<lparr>used = used (router s) @ [Cors corsConfig],
          routes = routes (router s) @
            [(''POST'', ''/v1/chat/completions'', HandleChatCompletions),
             (''OPTIONS'', ''/v1/chat/completions'', HandleOptions),
             (''GET'', ''/v1/models'', HandleListModels),
             (''GET'', ''/v1/models/:model'', HandleRetrieveModel)]\<rparr>\<rparr>"

definition start :: "Config \<Rightarrow> time \<Rightarrow> 'ts Process" where
  "start cfg t0 =
     \<lparr>server = NewServer cfg, pending = [], clock = t0, logged = [],
      listening = None, exited = False\<rparr>"

definition log_Fatalf :: "string \<Rightarrow> 'ts Process \<Rightarrow> 'ts Process" where
  "log_Fatalf msg p = p\<lparr>logged := logged p @ [msg], exited := True\<rparr>"

text \<open>
  \<^verbatim>\<open>main\<close>: \<open>projectID\<close> is the environment variable, \<open>run_err\<close> the error of
  \<^verbatim>\<open>router.Run(":8080")\<close> (\<open>None\<close> when the port is bound and the server serves).
\<close>

definition main_go ::
  "string \<Rightarrow> time \<Rightarrow> string + 'ts Credentials \<Rightarrow> ('ts \<Rightarrow> string + Token) \<Rightarrow> string option
     \<Rightarrow> 'ts Process" where
  "main_go projectID t0 found tokenOf run_err =
     (let cfg = \<lparr>ProjectID = projectID, Location = ''us-central1'', EndpointID = ''openapi''\<rparr>
      in case refreshCredentials found tokenOf (start cfg t0) of
           (Some err, p) \<Rightarrow> log_Fatalf (''Failed to initialize credentials: '' @ err) p
         | (None, p) \<Rightarrow>
             (let p' = p\<lparr>server := setupRoutes (server p)\<rparr>
              in case run_err of
                   Some err \<Rightarrow> log_Fatalf (''Failed to start server: '' @ err) p'
                 | None \<Rightarrow> p'\<lparr>listening := Some '':8080''\<rparr>))"

text \<open>
  The states of a process whose initial \<^verbatim>\<open>refreshCredentials\<close> succeeded: the state
  right after it, and every state reached from there by \<^verbatim>\<open>main\<close> going on (the
  routes, then the port) and by pending goroutines waking up, in any interleaving and
  whatever the identity provider answers.
\<close>

inductive running :: "'ts Process \<Rightarrow> bool" where
  initialized:
    "refreshCredentials found tokenOf (start cfg t0) = (None, p) \<Longrightarrow> running p"
| routed:
    "running p \<Longrightarrow> routes (router (server p)) = [] \<Longrightarrow>
     running (p\<lparr>server := setupRoutes (server p)\<rparr>)"
| serving:
    "running p \<Longrightarrow> routes (router (server p)) \<noteq> [] \<Longrightarrow> listening p = None \<Longrightarrow>
     running (p\<lparr>listening := Some '':8080''\<rparr>)"
| woken:
    "running p \<Longrightarrow> goroutine i t found tokenOf p = Some p' \<Longrightarrow> running p'"

section \<open>The request forwarder\<close>

text \<open>
  \<^verbatim>\<open>openai.ChatCompletionRequest\<close> is a struct of the client library; the handler
  touches its \<^verbatim>\<open>Model\<close> field only. Every other field of the struct is in the
  record's extension \<open>'z\<close>, so a request is a \<open>'z ChatCompletionRequest_scheme\<close>.
\<close>

record ChatCompletionRequest =
  Model :: string

text \<open>
  One call of \<^verbatim>\<open>client.CreateChatCompletion\<close>: the client's base address, the token
  source its HTTP client authorises with, and the request passed.
\<close>

datatype ('ts, 'q) upstream_call =
  UpstreamCall (BaseURL: string) (Source: 'ts) (Sent: 'q)

text \<open>
  What a handler writes with \<^verbatim>\<open>c.JSON\<close> / \<^verbatim>\<open>c.Status\<close>: a status and a body. A
  \<^verbatim>\<open>gin.H\<close> is a JSON object; the structs are kept as values (\<open>'r\<close> is the library's
  \<^verbatim>\<open>openai.ChatCompletionResponse\<close>). \<open>Panicked\<close> is a nil-pointer dereference.
  JSON numbers are integers here; fractions are left out.
\<close>

datatype json =
  JNull | JBool bool | JNumber int | JString string | JArray "json list"
  | JObject "(string \<times> json) list"

record ModelObject =
  ID :: string
  Object :: string
  Created :: int
  OwnedBy :: string

text \<open>\<^verbatim>\<open>ModelList\<close>; its field \<^verbatim>\<open>Object\<close> is \<open>ListObject\<close> here.\<close>

record ModelList =
  ListObject :: string
  Data :: "ModelObject list"

datatype 'r body =
  NoBody | Plain string | H json | ModelJSON ModelObject | ModelListJSON ModelList
  | ResponseJSON 'r

datatype 'r reply = Reply nat "'r body" | RedirectTo nat string | Panicked

definition StatusOK :: nat where "StatusOK = 200"
definition StatusMovedPermanently :: nat where "StatusMovedPermanently = 301"
definition StatusTemporaryRedirect :: nat where "StatusTemporaryRedirect = 307"
definition StatusBadRequest :: nat where "StatusBadRequest = 400"
definition StatusNotFound :: nat where "StatusNotFound = 404"
definition StatusInternalServerError :: nat where "StatusInternalServerError = 500"

definition baseURL :: "Config \<Rightarrow> string" where
  "baseURL cfg =
     ''https://'' @ Location cfg @ ''-aiplatform.googleapis.com/v1beta1/projects/'' @
     ProjectID cfg @ ''/locations/'' @ Location cfg @ ''/endpoints/'' @ EndpointID cfg"

text \<open>
  \<^verbatim>\<open>handleChatCompletions\<close>. \<open>bound\<close> is what \<^verbatim>\<open>c.BindJSON(&request)\<close> gives on the
  inbound body: the error's message or the parsed request. \<open>upstream\<close> is the client
  library and the network behind it: what \<^verbatim>\<open>CreateChatCompletion\<close> returns for a
  call. The result is the list of replies the handler writes, in order, and the list of
  calls of \<^verbatim>\<open>CreateChatCompletion\<close> it makes, in order.
\<close>

definition handleChatCompletions ::
  "'ts Server \<Rightarrow> string + 'z ChatCompletionRequest_scheme
     \<Rightarrow> (('ts, 'z ChatCompletionRequest_scheme) upstream_call \<Rightarrow> string + 'r)
     \<Rightarrow> 'r reply list \<times> ('ts, 'z ChatCompletionRequest_scheme) upstream_call list" where
  "handleChatCompletions s bound upstream =
     (case bound of
        Inl err \<Rightarrow> ([Reply StatusBadRequest (H (JObject [(''error'', JString err)]))], [])
      | Inr request \<Rightarrow>
          (case credential s of
             None \<Rightarrow> ([Panicked], [])
           | Some creds \<Rightarrow>
               (let call = UpstreamCall (baseURL (config s)) (TokenSource creds)
                             (request\<lparr>Model := ''google/gemini-2.0-flash-001''\<rparr>)
                in case upstream call of
                     Inl err \<Rightarrow>
                       ([Reply StatusInternalServerError (H (JObject [(''error'', JString err)]))],
                        [call])
                   | Inr resp \<Rightarrow> ([Reply StatusOK (ResponseJSON resp)], [call]))))"

definition handleOptions :: "'r reply list" where
  "handleOptions = [Reply StatusOK NoBody]"

section \<open>Bodies on the wire\<close>

text \<open>
  The handler never sees a body: \<^verbatim>\<open>BindJSON\<close> decodes the inbound body into the
  library's request struct, the client encodes the struct it is given as the upstream
  body and decodes the upstream answer into the library's response struct, and
  \<^verbatim>\<open>c.JSON\<close> encodes that struct again. This section follows \<^verbatim>\<open>encoding/json\<close> on
  the keys of the outermost object.

  A struct type is the list of its fields, in order: the JSON name, the kind of Go type,
  and whether the tag says \<^verbatim>\<open>omitempty\<close>. The struct types of the library are
  parameters of every function here. Decoding an object gives each field the value the
  object has under the field's name (the last one, if the key is repeated) and the zero
  value when there is none or it is \<^verbatim>\<open>null\<close>; a key that names no field is skipped;
  a value of the wrong JSON kind, or a body that is neither an object nor \<^verbatim>\<open>null\<close>, is
  an error. Encoding writes the fields in order and leaves out an \<^verbatim>\<open>omitempty\<close> field
  whose value is empty. A struct value is the list of its fields' values, each kept as
  the JSON value it encodes to.

  Not followed: what decoding and encoding do inside a field's value (a nested struct is
  treated there as it is here), what a pointer or an interface points to, Go's fallback
  to a match of names that ignores case, and the text of decoding errors, which is a
  parameter.
\<close>

datatype gokind =
  GoString | GoNumber | GoBool | GoSlice | GoMap | GoPointer | GoInterface | GoStruct json

type_synonym gofield = "string \<times> gokind \<times> bool"

text \<open>The zero value as it encodes; a struct kind carries the encoding of its zero.\<close>

fun zeroValue :: "gokind \<Rightarrow> json" where
  "zeroValue GoString = JString []"
| "zeroValue GoNumber = JNumber 0"
| "zeroValue GoBool = JBool False"
| "zeroValue GoSlice = JNull"
| "zeroValue GoMap = JNull"
| "zeroValue GoPointer = JNull"
| "zeroValue GoInterface = JNull"
| "zeroValue (GoStruct z) = z"

text \<open>What \<^verbatim>\<open>omitempty\<close> leaves out: false, 0, the empty string, nil, an empty slice or map.\<close>

fun isEmptyValue :: "gokind \<Rightarrow> json \<Rightarrow> bool" where
  "isEmptyValue GoString v = (v = JString [])"
| "isEmptyValue GoNumber v = (v = JNumber 0)"
| "isEmptyValue GoBool v = (v = JBool False)"
| "isEmptyValue GoSlice v = (v = JNull \<or> v = JArray [])"
| "isEmptyValue GoMap v = (v = JNull \<or> v = JObject [])"
| "isEmptyValue GoPointer v = (v = JNull)"
| "isEmptyValue GoInterface v = (v = JNull)"
| "isEmptyValue (GoStruct z) v = False"

fun fits :: "gokind \<Rightarrow> json \<Rightarrow> bool" where
  "fits GoString v = (case v of JString _ \<Rightarrow> True | _ \<Rightarrow> False)"
| "fits GoNumber v = (case v of JNumber _ \<Rightarrow> True | _ \<Rightarrow> False)"
| "fits GoBool v = (case v of JBool _ \<Rightarrow> True | _ \<Rightarrow> False)"
| "fits GoSlice v = (case v of JArray _ \<Rightarrow> True | _ \<Rightarrow> False)"
| "fits GoMap v = (case v of JObject _ \<Rightarrow> True | _ \<Rightarrow> False)"
| "fits (GoStruct z) v = (case v of JObject _ \<Rightarrow> True | _ \<Rightarrow> False)"
| "fits GoPointer v = True"
| "fits GoInterface v = True"

definition lookupKey :: "string \<Rightarrow> (string \<times> json) list \<Rightarrow> json option" where
  "lookupKey k kvs = map_of (rev kvs) k"

definition member :: "string \<Rightarrow> json \<Rightarrow> json option" where
  "member k j = (case j of JObject kvs \<Rightarrow> lookupKey k kvs | _ \<Rightarrow> None)"

fun decodeFields :: "gofield list \<Rightarrow> (string \<times> json) list \<Rightarrow> (string \<times> json) list option" where
  "decodeFields [] kvs = Some []"
| "decodeFields ((name, kind, omit) # flds) kvs =
     (case decodeFields flds kvs of
        None \<Rightarrow> None
      | Some vals \<Rightarrow>
          (case lookupKey name kvs of
             None \<Rightarrow> Some ((name, zeroValue kind) # vals)
           | Some v \<Rightarrow>
               (if v = JNull then Some ((name, zeroValue kind) # vals)
                else if fits kind v then Some ((name, v) # vals)
                else None)))"

definition json_Unmarshal :: "gofield list \<Rightarrow> json \<Rightarrow> (string \<times> json) list option" where
  "json_Unmarshal flds body =
     (case body of
        JNull \<Rightarrow> decodeFields flds []
      | JObject kvs \<Rightarrow> decodeFields flds kvs
      | _ \<Rightarrow> None)"

fun encodeFields :: "gofield list \<Rightarrow> (string \<times> json) list \<Rightarrow> (string \<times> json) list" where
  "encodeFields [] vals = []"
| "encodeFields ((name, kind, omit) # flds) vals =
     (case map_of vals name of
        None \<Rightarrow> encodeFields flds vals
      | Some v \<Rightarrow>
          (if omit \<and> isEmptyValue kind v then encodeFields flds vals
           else (name, v) # encodeFields flds vals))"

definition json_Marshal :: "gofield list \<Rightarrow> (string \<times> json) list \<Rightarrow> json" where
  "json_Marshal flds vals = JObject (encodeFields flds vals)"

text \<open>
  \<^verbatim>\<open>c.BindJSON(&request)\<close> on an inbound body: \<open>others\<close> are the fields of
  \<^verbatim>\<open>openai.ChatCompletionRequest\<close> after \<^verbatim>\<open>Model\<close>, whose values make up the
  extension of the request record. \<open>requestBody\<close> is the upstream body the client
  encodes from the request it is called with.
\<close>

definition BindJSON ::
  "gofield list \<Rightarrow> string \<Rightarrow> json
     \<Rightarrow> string + ((string \<times> json) list) ChatCompletionRequest_scheme" where
  "BindJSON others errText body =
     (case json_Unmarshal ((''model'', GoString, False) # others) body of
        None \<Rightarrow> Inl errText
      | Some vals \<Rightarrow>
          (case vals of
             (_, JString m) # rest \<Rightarrow> Inr \<lparr>Model = m, \<dots> = rest\<rparr>
           | _ \<Rightarrow> Inl errText))"

definition requestBody ::
  "gofield list \<Rightarrow> ((string \<times> json) list) ChatCompletionRequest_scheme \<Rightarrow> json" where
  "requestBody others request =
     json_Marshal ((''model'', GoString, False) # others)
       ((''model'', JString (Model request)) # ChatCompletionRequest.more request)"

text \<open>
  What \<^verbatim>\<open>CreateChatCompletion\<close> returns for the outcome of its HTTP exchange (the
  message of the failure, or the body of the answer): \<open>flds\<close> are the fields of
  \<^verbatim>\<open>openai.ChatCompletionResponse\<close>.
\<close>

definition clientResult ::
  "gofield list \<Rightarrow> string \<Rightarrow> string + json \<Rightarrow> string + (string \<times> json) list" where
  "clientResult flds errText outcome =
     (case outcome of
        Inl err \<Rightarrow> Inl err
      | Inr body \<Rightarrow>
          (case json_Unmarshal flds body of
             None \<Rightarrow> Inl errText
           | Some resp \<Rightarrow> Inr resp))"

text \<open>
  The JSON a reply carries on the wire, given how the response struct encodes
  (\<open>None\<close> when the reply carries no JSON).
\<close>

definition modelJSON :: "ModelObject \<Rightarrow> json" where
  "modelJSON m =
     JObject [(''id'', JString (ID m)), (''object'', JString (Object m)),
              (''created'', JNumber (Created m)), (''owned_by'', JString (OwnedBy m))]"

definition wireJSON :: "('r \<Rightarrow> json) \<Rightarrow> 'r reply \<Rightarrow> json option" where
  "wireJSON enc r =
     (case r of
        Reply st b \<Rightarrow>
          (case b of
             H j \<Rightarrow> Some j
           | ModelJSON m \<Rightarrow> Some (modelJSON m)
           | ModelListJSON l \<Rightarrow>
               Some (JObject [(''object'', JString (ListObject l)),
                              (''data'', JArray (map modelJSON (Data l)))])
           | ResponseJSON resp \<Rightarrow> Some (enc resp)
           | _ \<Rightarrow> None)
      | _ \<Rightarrow> None)"

text \<open>
  Struct types for the worked runs: fields that \<^verbatim>\<open>openai.ChatCompletionRequest\<close> (after
  \<^verbatim>\<open>Model\<close>) and \<^verbatim>\<open>openai.ChatCompletionResponse\<close> have. The library's structs have
  more fields, depending on its version; none is named \<^verbatim>\<open>top_k\<close> or \<^verbatim>\<open>foo\<close>.
\<close>

definition chatRequestFields :: "gofield list" where
  "chatRequestFields =
     [(''messages'', GoSlice, False), (''max_tokens'', GoNumber, True),
      (''temperature'', GoNumber, True), (''top_p'', GoNumber, True),
      (''n'', GoNumber, True), (''stream'', GoBool, True), (''stop'', GoSlice, True),
      (''user'', GoString, True)]"

definition chatResponseFields :: "gofield list" where
  "chatResponseFields =
     [(''id'', GoString, False), (''object'', GoString, False),
      (''created'', GoNumber, False), (''model'', GoString, False),
      (''choices'', GoSlice, False),
      (''usage'', GoStruct (JObject [(''prompt_tokens'', JNumber 0),
                                      (''completion_tokens'', JNumber 0),
                                      (''total_tokens'', JNumber 0)]), False)]"

section \<open>The model catalog\<close>

text \<open>
  \<^verbatim>\<open>AvailableModels\<close> is a Go map written as a literal; here the list of its entries,
  read with \<open>map_of\<close> and ranged over in the order written.
\<close>

definition AvailableModels :: "(string \<times> ModelObject) list" where
  "AvailableModels =
     [(''google/gemini-2.0-flash-001'',
       \<lparr>ID = ''google/gemini-2.0-flash-001'', Object = ''model'',
        Created = 1706745600, OwnedBy = ''google''\<rparr>)]"

definition handleListModels :: "'r reply list" where
  "handleListModels =
     (let modelList = \<lparr>ListObject = ''list'', Data = []\<rparr>;
          modelList = foldl (\<lambda>l (_, model). l\<lparr>Data := Data l @ [model]\<rparr>) modelList
                        AvailableModels
      in [Reply StatusOK (ModelListJSON modelList)])"

definition handleRetrieveModel :: "string \<Rightarrow> 'r reply list" where
  "handleRetrieveModel modelID =
     (case map_of AvailableModels modelID of
        None \<Rightarrow>
          [Reply StatusNotFound
             (H (JObject
                [(''error'', JObject
                   [(''message'',
                     JString (''The model '' @ [CHR 0x27] @ modelID @ [CHR 0x27] @
                              '' does not exist'')),
                    (''type'', JString ''invalid_request_error''),
                    (''param'', JNull),
                    (''code'', JString ''model_not_found'')])]))]
      | Some model \<Rightarrow> [Reply StatusOK (ModelJSON model)])"

section \<open>Routing\<close>

text \<open>
  The gin router, for the patterns \<^verbatim>\<open>setupRoutes\<close> registers: a pattern and a path
  are compared segment by segment (the pieces between slashes); a pattern segment
  \<^verbatim>\<open>:name\<close> takes one whole non-empty path segment, so it never takes a slash; any
  other pattern segment must equal the path segment. With gin's defaults a path that
  matches no route of the method is redirected when the same path with its trailing
  slash removed (or added) matches one, where for this test a \<^verbatim>\<open>:name\<close> segment may
  also be empty (the flag \<open>e\<close>), and is answered \<^verbatim>\<open>404 page not found\<close> otherwise.
  The path is \<^verbatim>\<open>Request.URL.Path\<close>, which Go has already percent-decoded.
\<close>

fun segments :: "string \<Rightarrow> string list" where
  "segments [] = [[]]"
| "segments (c # cs) =
     (if c = CHR ''/'' then [] # segments cs
      else (case segments cs of
              [] \<Rightarrow> [[c]]
            | seg # segs \<Rightarrow> (c # seg) # segs))"

fun match_segments ::
  "bool \<Rightarrow> string list \<Rightarrow> string list \<Rightarrow> (string \<times> string) list option" where
  "match_segments e [] [] = Some []"
| "match_segments e (pat # pats) (seg # segs) =
     (case pat of
        c # name \<Rightarrow>
          (if c = CHR '':'' then
             (if seg = [] \<and> \<not> e then None
              else map_option ((#) (name, seg)) (match_segments e pats segs))
           else if pat = seg then match_segments e pats segs else None)
      | [] \<Rightarrow> (if seg = [] then match_segments e pats segs else None))"
| "match_segments e _ _ = None"

fun getValue ::
  "bool \<Rightarrow> (string \<times> string \<times> handler) list \<Rightarrow> string \<Rightarrow> string
     \<Rightarrow> (handler \<times> (string \<times> string) list) option" where
  "getValue e [] httpMethod path = None"
| "getValue e ((m, pattern, h) # rs) httpMethod path =
     (if m = httpMethod then
        (case match_segments e (segments pattern) (segments path) of
           Some params \<Rightarrow> Some (h, params)
         | None \<Rightarrow> getValue e rs httpMethod path)
      else getValue e rs httpMethod path)"

definition toggleTrailingSlash :: "string \<Rightarrow> string" where
  "toggleTrailingSlash path =
     (if 1 < length path \<and> last path = CHR ''/'' then butlast path else path @ ''/'')"

definition Param :: "(string \<times> string) list \<Rightarrow> string \<Rightarrow> string" where
  "Param params key = (case map_of params key of None \<Rightarrow> [] | Some v \<Rightarrow> v)"

record 'q Request =
  Method :: string
  URLPath :: string
  Bound :: "string + 'q"

text \<open>
  One inbound request through the engine: the replies written and the upstream calls
  made. The recovery middleware of \<^verbatim>\<open>gin.Default()\<close> answers a panic with 500.
  A request here has no \<^verbatim>\<open>Origin\<close> header, so the CORS middleware passes it on
  untouched; a request with one (a preflight, which the middleware answers itself with
  204) is not a value of this type. Response headers are left out.
\<close>

definition recover :: "middleware list \<Rightarrow> 'r reply \<Rightarrow> 'r reply" where
  "recover ms r =
     (case r of
        Panicked \<Rightarrow> (if Recovery \<in> set ms then Reply StatusInternalServerError NoBody else r)
      | _ \<Rightarrow> r)"

definition ServeHTTP ::
  "'ts Server \<Rightarrow> ('z ChatCompletionRequest_scheme) Request
     \<Rightarrow> (('ts, 'z ChatCompletionRequest_scheme) upstream_call \<Rightarrow> string + 'r)
     \<Rightarrow> 'r reply list \<times> ('ts, 'z ChatCompletionRequest_scheme) upstream_call list" where
  "ServeHTTP s req upstream =
     (case getValue False (routes (router s)) (Method req) (URLPath req) of
        Some (h, params) \<Rightarrow>
          (case h of
             HandleChatCompletions \<Rightarrow>
               (case handleChatCompletions s (Bound req) upstream of
                  (rs, calls) \<Rightarrow> (map (recover (used (router s))) rs, calls))
           | HandleOptions \<Rightarrow> (handleOptions, [])
           | HandleListModels \<Rightarrow> (handleListModels, [])
           | HandleRetrieveModel \<Rightarrow> (handleRetrieveModel (Param params ''model''), []))
      | None \<Rightarrow>
          (if Method req \<noteq> ''CONNECT'' \<and> URLPath req \<noteq> ''/'' \<and>
              getValue True (routes (router s)) (Method req) (toggleTrailingSlash (URLPath req))
                \<noteq> None
           then ([RedirectTo (if Method req = ''GET'' then StatusMovedPermanently
                              else StatusTemporaryRedirect)
                    (toggleTrailingSlash (URLPath req))], [])
           else ([Reply StatusNotFound (Plain ''404 page not found'')], [])))"

section \<open>Properties of a refresh\<close>

lemmas time_defs = wakeAt_def Minute_def Second_def time_Until_def time_Sub_def sleepEnd_def
  maxDuration_def minDuration_def

lemmas status_defs = StatusOK_def StatusMovedPermanently_def StatusTemporaryRedirect_def
  StatusBadRequest_def StatusNotFound_def StatusInternalServerError_def


lemma refresh_error_indep:
  "fst (refreshCredentials found tokenOf p) = fst (refreshCredentials found tokenOf q)"
  by (simp add: refreshCredentials_def split: sum.splits)

lemma refresh_failure_keeps: "refreshCredentials found tokenOf p = (Some err, p') \<Longrightarrow> p' = p"
  by (auto simp: refreshCredentials_def split: sum.splits)

lemma refresh_success:
  "refreshCredentials found tokenOf p = (None, p') \<Longrightarrow>
     \<exists>creds token. found = Inr creds \<and> tokenOf (TokenSource creds) = Inr token \<and>
       p' = p\<lparr>server := (server p)\<lparr>credential := Some creds\<rparr>, pending := pending p @ [token]\<rparr>"
  by (auto simp: refreshCredentials_def split: sum.splits)

lemma goroutine_cases:
  assumes "goroutine i t found tokenOf p = Some p'"
  obtains
    (failed) err where "i < length (pending p)"
      "sleepEnd (clock p) (time_Until (wakeAt (pending p ! i)) (clock p)) \<le> t"
      "fst (refreshCredentials found tokenOf p) = Some err"
      "p' = p\<lparr>pending := take i (pending p) @ drop (Suc i) (pending p), clock := t,
               logged := logged p @ [''Failed to refresh credentials: '' @ err]\<rparr>"
  | (refreshed) creds token where "i < length (pending p)"
      "sleepEnd (clock p) (time_Until (wakeAt (pending p ! i)) (clock p)) \<le> t"
      "found = Inr creds" "tokenOf (TokenSource creds) = Inr token"
      "p' = p\<lparr>server := (server p)\<lparr>credential := Some creds\<rparr>,
               pending := take i (pending p) @ drop (Suc i) (pending p) @ [token], clock := t\<rparr>"
proof -
  let ?p1 = "p\<lparr>pending := take i (pending p) @ drop (Suc i) (pending p), clock := t\<rparr>"
  from assms have g: "i < length (pending p)"
    "sleepEnd (clock p) (time_Until (wakeAt (pending p ! i)) (clock p)) \<le> t"
    by (auto simp: goroutine_def split: if_splits)
  obtain e p2 where r: "refreshCredentials found tokenOf ?p1 = (e, p2)"
    by (cases "refreshCredentials found tokenOf ?p1")
  show thesis
  proof (cases e)
    case None
    with r obtain creds token where "found = Inr creds" "tokenOf (TokenSource creds) = Inr token"
      "p2 = ?p1\<lparr>server := (server ?p1)\<lparr>credential := Some creds\<rparr>, pending := pending ?p1 @ [token]\<rparr>"
      using refresh_success by blast
    moreover from assms g r None have "p' = p2" by (simp add: goroutine_def)
    ultimately have "found = Inr creds" "tokenOf (TokenSource creds) = Inr token"
      "p' = p\<lparr>server := (server p)\<lparr>credential := Some creds\<rparr>,
              pending := take i (pending p) @ drop (Suc i) (pending p) @ [token], clock := t\<rparr>"
      by (cases p; simp)+
    with g show thesis by (rule refreshed)
  next
    case (Some err)
    with r have "p2 = ?p1" using refresh_failure_keeps by blast
    moreover from assms g r Some
    have "p' = p2\<lparr>logged := logged p2 @ [''Failed to refresh credentials: '' @ err]\<rparr>"
      by (simp add: goroutine_def)
    moreover have "fst (refreshCredentials found tokenOf p) = Some err"
      using r Some refresh_error_indep [of found tokenOf p ?p1] by simp
    ultimately have "fst (refreshCredentials found tokenOf p) = Some err"
      "p' = p\<lparr>pending := take i (pending p) @ drop (Suc i) (pending p), clock := t,
              logged := logged p @ [''Failed to refresh credentials: '' @ err]\<rparr>"
      by (cases p; simp)+
    with g show thesis by (rule failed)
  qed
qed

lemma running_pending: "running p \<Longrightarrow> length (pending p) \<le> 1"
proof (induction rule: running.induct)
  case (initialized found tokenOf cfg t0 p)
  then show ?case by (auto dest!: refresh_success simp: start_def)
next
  case (woken p i t found tokenOf p')
  from woken.hyps(2) show ?case
    using woken.IH by (cases rule: goroutine_cases) auto
qed simp_all

lemma running_credential: "running p \<Longrightarrow> credential (server p) \<noteq> None"
proof (induction rule: running.induct)
  case (initialized found tokenOf cfg t0 p)
  then show ?case by (auto dest!: refresh_success)
next
  case (woken p i t found tokenOf p')
  from woken.hyps(2) show ?case
    using woken.IH by (cases rule: goroutine_cases) auto
qed (simp_all add: setupRoutes_def)

lemma encodeFields_keys: "fst ` set (encodeFields flds vals) \<subseteq> fst ` set flds"
  by (induction flds vals rule: encodeFields.induct) (auto split: option.splits if_splits)

lemma lookupKey_None: "k \<notin> fst ` set kvs \<Longrightarrow> lookupKey k kvs = None"
  by (simp add: lookupKey_def map_of_eq_None_iff)

lemma marshal_unknown_key:
  "k \<notin> fst ` set flds \<Longrightarrow> member k (json_Marshal flds vals) = None"
  using encodeFields_keys [of flds vals]
  by (auto simp: member_def json_Marshal_def intro!: lookupKey_None)

section \<open>The refresh schedule\<close>

text \<open>
  Claim C2, as amended. Every successful \<^verbatim>\<open>refreshCredentials\<close>, the initial one and
  every later one, starts exactly one new refresh goroutine (the list of pending
  goroutines grows by the one that captured the new token). That goroutine sleeps until
  the new token's expiry minus five minutes (300000000000 ns), with two exceptions: it
  does not sleep when that deadline has passed, and it sleeps for the largest
  \<^verbatim>\<open>Duration\<close> (9223372036854775807 ns, about 292 years) when the deadline is farther
  away than that. When its sleep is over it calls \<^verbatim>\<open>refreshCredentials\<close> once, in the
  process without itself, and logs the error if there is one.
\<close>

theorem refresh_arms_one_timer:
  assumes "refreshCredentials found tokenOf p = (None, p')"
  shows "\<exists>creds token. found = Inr creds \<and> tokenOf (TokenSource creds) = Inr token \<and>
           pending p' = pending p @ [token] \<and>
           (\<forall>t f k. goroutine (length (pending p)) t f k p' =
              (if (if 9223372036854775807 < Expiry token - 300000000000 - clock p'
                   then clock p' + 9223372036854775807
                   else max (clock p') (Expiry token - 300000000000)) \<le> t
               then Some (case refreshCredentials f k (p'\<lparr>pending := pending p, clock := t\<rparr>) of
                            (None, q) \<Rightarrow> q
                          | (Some err, q) \<Rightarrow>
                              q\<lparr>logged := logged q @ [''Failed to refresh credentials: '' @ err]\<rparr>)
               else None))"
proof -
  from refresh_success [OF assms] obtain creds token where
    f: "found = Inr creds" and k: "tokenOf (TokenSource creds) = Inr token" and
    p': "p' = p\<lparr>server := (server p)\<lparr>credential := Some creds\<rparr>, pending := pending p @ [token]\<rparr>"
    by blast
  have w: "sleepEnd (clock p') (time_Until (wakeAt token) (clock p')) =
           (if 9223372036854775807 < Expiry token - 300000000000 - clock p'
            then clock p' + 9223372036854775807
            else max (clock p') (Expiry token - 300000000000))"
    by (simp add: time_defs)
  have "goroutine (length (pending p)) t f k p' =
          (if (if 9223372036854775807 < Expiry token - 300000000000 - clock p'
               then clock p' + 9223372036854775807
               else max (clock p') (Expiry token - 300000000000)) \<le> t
           then Some (case refreshCredentials f k (p'\<lparr>pending := pending p, clock := t\<rparr>) of
                        (None, q) \<Rightarrow> q
                      | (Some err, q) \<Rightarrow>
                          q\<lparr>logged := logged q @ [''Failed to refresh credentials: '' @ err]\<rparr>)
           else None)" for t f k
  proof -
    have n: "length (pending p) < length (pending p')" "pending p' ! length (pending p) = token"
      "take (length (pending p)) (pending p') @ drop (Suc (length (pending p))) (pending p') =
         pending p"
      by (simp_all add: p')
    show ?thesis
      unfolding goroutine_def Let_def n w [symmetric]
      by (simp add: n split: prod.splits option.splits)
  qed
  with f k p' show ?thesis by simp
qed

text \<open>
  Claim C6. At most one refresh goroutine is pending at any moment: none in the process
  as started, at most one when \<^verbatim>\<open>main\<close> has run (whether it ended fatally or serves),
  at most one in every state of a running process; and when a pending goroutine wakes
  and its refresh succeeds, the only goroutine pending afterwards is the new one.
\<close>

theorem at_most_one_timer:
  "pending (start cfg t0) = [] \<and>
   length (pending (main_go projectID t1 found0 tokenOf0 run_err)) \<le> 1 \<and>
   (running p \<longrightarrow>
      length (pending p) \<le> 1 \<and>
      (\<forall>i t creds tokenOf token p'.
          goroutine i t (Inr creds) tokenOf p = Some p' \<longrightarrow>
          tokenOf (TokenSource creds) = Inr token \<longrightarrow> pending p' = [token]))"
proof (intro conjI impI allI)
  show "pending (start cfg t0) = []" by (simp add: start_def)
next
  show "length (pending (main_go projectID t1 found0 tokenOf0 run_err)) \<le> 1"
    by (cases found0; cases run_err)
       (auto simp: main_go_def refreshCredentials_def log_Fatalf_def start_def Let_def
          split: sum.splits)
next
  assume "running p"
  then show "length (pending p) \<le> 1" by (rule running_pending)
next
  fix i t creds tokenOf token p'
  assume r: "running p" and g: "goroutine i t (Inr creds) tokenOf p = Some p'"
    and k: "tokenOf (TokenSource creds) = Inr token"
  from running_pending [OF r] have le: "length (pending p) \<le> 1" .
  from g show "pending p' = [token]"
  proof (cases rule: goroutine_cases)
    case (failed err)
    with k show ?thesis by (simp add: refreshCredentials_def)
  next
    case (refreshed creds' token')
    with k le show ?thesis by auto
  qed
qed

section \<open>The installed credential\<close>

text \<open>
  Claim C4. In every state of a running process (one whose initial refresh succeeded)
  the server holds credentials, and a refresh that fails, called directly or by a
  woken goroutine, leaves the credentials held exactly as they were.
\<close>

theorem credential_always_present:
  assumes "running p"
  shows "credential (server p) \<noteq> None \<and>
         (\<forall>found tokenOf err p'. refreshCredentials found tokenOf p = (Some err, p') \<longrightarrow>
            credential (server p') = credential (server p)) \<and>
         (\<forall>i t found tokenOf err p'. goroutine i t found tokenOf p = Some p' \<longrightarrow>
            fst (refreshCredentials found tokenOf p) = Some err \<longrightarrow>
            credential (server p') = credential (server p))"
proof (intro conjI allI impI)
  show "credential (server p) \<noteq> None" using assms by (rule running_credential)
next
  fix found tokenOf err p'
  assume "refreshCredentials found tokenOf p = (Some err, (p' :: 'a Process))"
  then show "credential (server p') = credential (server p)"
    by (auto dest: refresh_failure_keeps)
next
  fix i t found tokenOf err p'
  assume g: "goroutine i t found tokenOf p = Some (p' :: 'a Process)"
    and e: "fst (refreshCredentials found tokenOf p) = Some err"
  from g show "credential (server p') = credential (server p)"
  proof (cases rule: goroutine_cases)
    case (failed err')
    then show ?thesis by simp
  next
    case (refreshed creds token)
    with e show ?thesis by (simp add: refreshCredentials_def)
  qed
qed

text \<open>
  Claim C1, as amended. When the scheduled refresh of a running process fails, the
  credentials installed before stay installed and the request handler goes on using
  them (it behaves as before the attempt); the failure is logged; and no retry is
  scheduled: no goroutine is pending afterwards, so none can ever wake and
  \<^verbatim>\<open>refreshCredentials\<close> is not called again.
\<close>

theorem failed_refresh_keeps_credential_no_retry:
  assumes "running p" and "goroutine i t found tokenOf p = Some p'"
    and "fst (refreshCredentials found tokenOf p) = Some err"
  shows "credential (server p') = credential (server p) \<and>
         handleChatCompletions (server p') bound upstream =
           handleChatCompletions (server p) bound upstream \<and>
         logged p' = logged p @ [''Failed to refresh credentials: '' @ err] \<and>
         pending p' = [] \<and>
         goroutine j t' found' tokenOf' p' = None"
proof -
  from running_pending [OF assms(1)] have le: "length (pending p) \<le> 1" .
  from assms(2) show ?thesis
  proof (cases rule: goroutine_cases)
    case (failed err')
    with assms(3) have "err' = err" by simp
    with failed le show ?thesis
      by (auto simp: goroutine_def handleChatCompletions_def)
  next
    case (refreshed creds token)
    with assms(3) show ?thesis by (simp add: refreshCredentials_def)
  qed
qed

section \<open>Failure at start-up\<close>

text \<open>
  Claim C5. If the initial credential acquisition fails (no credentials found, or no
  token from the credentials found), \<^verbatim>\<open>main\<close> ends the process with
  \<^verbatim>\<open>log.Fatalf\<close>: no address is bound, no route has been registered, and the only
  thing left is the fatal log line.
\<close>

theorem failed_initialization_is_fatal:
  assumes "found = Inl e \<or> (\<exists>creds. found = Inr creds \<and> tokenOf (TokenSource creds) = Inl e)"
  shows "exited (main_go projectID t0 found tokenOf run_err) \<and>
         listening (main_go projectID t0 found tokenOf run_err) = None \<and>
         routes (router (server (main_go projectID t0 found tokenOf run_err))) = [] \<and>
         credential (server (main_go projectID t0 found tokenOf run_err)) = None \<and>
         (\<exists>err. logged (main_go projectID t0 found tokenOf run_err) =
                  [''Failed to initialize credentials: '' @ err])"
  using assms
  by (auto simp: main_go_def refreshCredentials_def log_Fatalf_def start_def NewServer_def
        gin_Default_def)

text \<open>
  For comparison, the other branch of \<^verbatim>\<open>main\<close>: after a successful initial refresh
  the four routes are registered and the port is bound.
\<close>

lemma main_serves_after_initialization:
  assumes "found = Inr creds" and "tokenOf (TokenSource creds) = Inr token"
  shows "\<not> exited (main_go projectID t0 found tokenOf None) \<and>
         listening (main_go projectID t0 found tokenOf None) = Some '':8080'' \<and>
         length (routes (router (server (main_go projectID t0 found tokenOf None)))) = 4 \<and>
         running (main_go projectID t0 found tokenOf None)"
proof -
  let ?cfg = "\<lparr>ProjectID = projectID, Location = ''us-central1'', EndpointID = ''openapi''\<rparr>"
  obtain p where r: "refreshCredentials found tokenOf (start ?cfg t0) = (None, p)"
    using assms by (simp add: refreshCredentials_def)
  then have r1: "running p" by (rule running.initialized)
  from r assms
  have p: "p = \<lparr>server = \<lparr>config = ?cfg, credential = Some creds, router = gin_Default\<rparr>,
             pending = [token], clock = t0, logged = [], listening = None, exited = False\<rparr>"
    by (auto simp: refreshCredentials_def start_def NewServer_def)
  from r1 have r2: "running (p\<lparr>server := setupRoutes (server p)\<rparr>)"
    by (rule running.routed) (simp add: p gin_Default_def)
  from r2 have "running (p\<lparr>server := setupRoutes (server p)\<rparr>\<lparr>listening := Some '':8080''\<rparr>)"
    by (rule running.serving) (simp_all add: p setupRoutes_def)
  moreover have m: "main_go projectID t0 found tokenOf None =
      p\<lparr>server := setupRoutes (server p)\<rparr>\<lparr>listening := Some '':8080''\<rparr>"
    using r by (simp add: main_go_def)
  ultimately show ?thesis using p
    by (simp add: setupRoutes_def gin_Default_def)
qed

section \<open>Forwarding a chat completion\<close>

text \<open>
  Claim C7. For every inbound request that \<^verbatim>\<open>BindJSON\<close> parses, whatever model it
  names, the request the handler passes upstream has its \<^verbatim>\<open>Model\<close> field equal to
  \<^verbatim>\<open>google/gemini-2.0-flash-001\<close> (the server holding credentials, as it does whenever
  it serves).
\<close>

theorem model_field_is_overridden:
  assumes "credential s = Some creds"
  shows "map (\<lambda>call. Model (Sent call)) (snd (handleChatCompletions s (Inr request) upstream)) =
           [''google/gemini-2.0-flash-001'']"
  using assms by (simp add: handleChatCompletions_def Let_def split: sum.splits)

text \<open>
  Claim C10, as amended. The request passed to \<^verbatim>\<open>CreateChatCompletion\<close> is the parsed
  request struct with its \<^verbatim>\<open>Model\<close> field replaced: every other field of the struct
  is the parsed request's. What the inbound body holds under a key that is not a field
  of the struct does not reach upstream: the upstream body has nothing under that key.
\<close>

theorem only_model_field_is_changed:
  assumes "credential s = Some creds"
  shows "map Sent (snd (handleChatCompletions s (Inr request) upstream)) =
           [request\<lparr>Model := ''google/gemini-2.0-flash-001''\<rparr>] \<and>
         map (\<lambda>call. ChatCompletionRequest.more (Sent call))
           (snd (handleChatCompletions s (Inr request) upstream)) =
           [ChatCompletionRequest.more request] \<and>
         (k \<noteq> ''model'' \<longrightarrow> k \<notin> fst ` set others \<longrightarrow>
            map (\<lambda>call. member k (requestBody others (Sent call)))
              (snd (handleChatCompletions s (Inr parsed) upstream')) = [None])"
proof -
  have "member k (requestBody others r) = None"
    if "k \<noteq> ''model''" "k \<notin> fst ` set others" for r
    unfolding requestBody_def using that by (intro marshal_unknown_key) auto
  with assms show ?thesis
    by (simp add: handleChatCompletions_def Let_def split: sum.splits)
qed

text \<open>
  Claim C9, as amended. For a parsed request the handler calls
  \<^verbatim>\<open>CreateChatCompletion\<close> exactly once. If that call fails, the handler writes
  exactly one reply, status 500 with the JSON object \<^verbatim>\<open>{"error": <message>}\<close> carrying
  the call's error message. If it succeeds, the handler writes exactly one reply, status
  200, whose body is the JSON encoding of the response struct the call returned; that
  is not the upstream body: whatever struct is encoded, the encoding has nothing under
  a key that is not a field of the struct.
\<close>

theorem upstream_outcome_is_relayed_once:
  assumes "credential s = Some creds"
    and "handleChatCompletions s (Inr request) upstream = (replies, calls)"
  shows "length calls = 1 \<and>
         (\<forall>err. upstream (hd calls) = Inl err \<longrightarrow>
            replies = [Reply 500 (H (JObject [(''error'', JString err)]))]) \<and>
         (\<forall>resp. upstream (hd calls) = Inr resp \<longrightarrow>
            replies = [Reply 200 (ResponseJSON resp)] \<and>
            map (wireJSON enc) replies = [Some (enc resp)]) \<and>
         (k \<notin> fst ` set flds \<longrightarrow> member k (json_Marshal flds vals) = None)"
  using assms
  by (auto simp: handleChatCompletions_def Let_def status_defs wireJSON_def marshal_unknown_key
        split: sum.splits)

section \<open>The model catalog over HTTP\<close>

text \<open>
  The list handler answers with the one catalog entry, and the retrieve handler, given
  the identifier, answers with that entry or with 404 and the code
  \<^verbatim>\<open>model_not_found\<close>. Through the router, \<^verbatim>\<open>GET /v1/models\<close> reaches the list
  handler and \<^verbatim>\<open>GET /v1/models/<id>\<close> reaches the retrieve handler with \<^verbatim>\<open><id>\<close>
  when the identifier is one non-empty path segment; \<^verbatim>\<open>POST /v1/chat/completions\<close>
  reaches the chat-completion handler.
\<close>

lemma list_models_single_entry:
  "handleListModels =
     [Reply 200 (ModelListJSON \<lparr>ListObject = ''list'',
        Data = [\<lparr>ID = ''google/gemini-2.0-flash-001'', Object = ''model'',
                 Created = 1706745600, OwnedBy = ''google''\<rparr>]\<rparr>)]"
  by (simp add: handleListModels_def AvailableModels_def status_defs)

lemma retrieve_model_handler:
  "handleRetrieveModel modelID =
     (if modelID = ''google/gemini-2.0-flash-001'' then
        [Reply 200 (ModelJSON \<lparr>ID = ''google/gemini-2.0-flash-001'', Object = ''model'',
                       Created = 1706745600, OwnedBy = ''google''\<rparr>)]
      else
        [Reply 404 (H (JObject [(''error'', JObject
           [(''message'', JString (''The model '' @ [CHR 0x27] @ modelID @ [CHR 0x27] @
                                   '' does not exist'')),
            (''type'', JString ''invalid_request_error''),
            (''param'', JNull),
            (''code'', JString ''model_not_found'')])]))])"
  by (simp add: handleRetrieveModel_def AvailableModels_def status_defs)

lemma segments_no_slash: "CHR ''/'' \<notin> set xs \<Longrightarrow> segments xs = [xs]"
  by (induction xs) auto

lemma routes_after_setup:
  "routes (router (setupRoutes ((NewServer cfg)\<lparr>credential := c\<rparr>))) =
     [(''POST'', ''/v1/chat/completions'', HandleChatCompletions),
      (''OPTIONS'', ''/v1/chat/completions'', HandleOptions),
      (''GET'', ''/v1/models'', HandleListModels),
      (''GET'', ''/v1/models/:model'', HandleRetrieveModel)]"
  by (simp add: setupRoutes_def NewServer_def gin_Default_def)

lemma get_models_is_listed:
  "ServeHTTP (setupRoutes ((NewServer cfg)\<lparr>credential := c\<rparr>))
     \<lparr>Method = ''GET'', URLPath = ''/v1/models'', Bound = b\<rparr> upstream =
   (handleListModels, [])"
  by (simp add: ServeHTTP_def routes_after_setup)

lemma post_chat_completions_is_handled:
  "ServeHTTP (setupRoutes ((NewServer cfg)\<lparr>credential := c\<rparr>))
     \<lparr>Method = ''POST'', URLPath = ''/v1/chat/completions'', Bound = b\<rparr> upstream =
   (map (recover [Logger, Recovery, Cors corsConfig])
      (fst (handleChatCompletions (setupRoutes ((NewServer cfg)\<lparr>credential := c\<rparr>)) b upstream)),
    snd (handleChatCompletions (setupRoutes ((NewServer cfg)\<lparr>credential := c\<rparr>)) b upstream))"
  by (simp add: ServeHTTP_def routes_after_setup split: prod.splits)
     (simp add: setupRoutes_def NewServer_def gin_Default_def)

lemma get_model_single_segment:
  assumes "CHR ''/'' \<notin> set modelID" and "modelID \<noteq> []"
  shows "ServeHTTP (setupRoutes ((NewServer cfg)\<lparr>credential := c\<rparr>))
     \<lparr>Method = ''GET'', URLPath = ''/v1/models/'' @ modelID, Bound = b\<rparr> upstream =
   (handleRetrieveModel modelID, [])"
  using assms
  by (simp add: ServeHTTP_def routes_after_setup segments_no_slash Param_def)

text \<open>
  Claim C8. The claim says that \<^verbatim>\<open>GET /v1/models/google/gemini-2.0-flash-001\<close>
  returns the catalog entry with status 200. The identifier of the only catalog entry
  contains a slash, and the route \<^verbatim>\<open>/v1/models/:model\<close> takes a single path segment:
  the request matches no route, the retrieve handler is never called, and the engine
  answers \<^verbatim>\<open>404 page not found\<close>.
\<close>

theorem catalog_model_path_not_routed:
  "ServeHTTP (setupRoutes ((NewServer cfg)\<lparr>credential := c\<rparr>))
     \<lparr>Method = ''GET'', URLPath = ''/v1/models/google/gemini-2.0-flash-001'', Bound = b\<rparr>
     upstream =
   ([Reply 404 (Plain ''404 page not found'')], [])"
  by (simp add: ServeHTTP_def routes_after_setup toggleTrailingSlash_def status_defs)

section \<open>Worked runs\<close>

text \<open>
  The process used below: project \<^verbatim>\<open>demo\<close>, started at instant 0, whose initial
  refresh finds credentials and a token expiring after one hour, and whose port is bound.
\<close>

lemma example_start:
  "main_go ''demo'' 0 (Inr \<lparr>TokenSource = 7::nat\<rparr>)
     (\<lambda>_. Inr \<lparr>AccessToken = ''t1'', Expiry = 3600000000000\<rparr>) None =
   \<lparr>server = setupRoutes
       \<lparr>config = \<lparr>ProjectID = ''demo'', Location = ''us-central1'', EndpointID = ''openapi''\<rparr>,
        credential = Some \<lparr>TokenSource = 7\<rparr>, router = gin_Default\<rparr>,
    pending = [\<lparr>AccessToken = ''t1'', Expiry = 3600000000000\<rparr>], clock = 0, logged = [],
    listening = Some '':8080'', exited = False\<rparr>"
  by (simp add: main_go_def refreshCredentials_def start_def NewServer_def)

lemma example_running:
  "running (main_go ''demo'' 0 (Inr \<lparr>TokenSource = 7::nat\<rparr>)
     (\<lambda>_. Inr \<lparr>AccessToken = ''t1'', Expiry = 3600000000000\<rparr>) None)"
  using main_serves_after_initialization
    [of "Inr \<lparr>TokenSource = 7::nat\<rparr>" "\<lparr>TokenSource = 7::nat\<rparr>"
        "\<lambda>_. Inr \<lparr>AccessToken = ''t1'', Expiry = 3600000000000\<rparr>"
        "\<lparr>AccessToken = ''t1'', Expiry = 3600000000000\<rparr>" "''demo''" 0]
  by simp

text \<open>
  The initial refresh at instant 0 with a token expiring after one hour: one goroutine
  is pending; it cannot wake one nanosecond before minute 55; at minute 55 it wakes and
  calls \<^verbatim>\<open>refreshCredentials\<close>, which fails here and is logged.
\<close>

theorem refresh_arms_one_timer_witness:
  "let p = start \<lparr>ProjectID = ''demo'', Location = ''us-central1'', EndpointID = ''openapi''\<rparr> 0;
       token = \<lparr>AccessToken = ''t1'', Expiry = 3600000000000\<rparr>;
       p' = snd (refreshCredentials (Inr \<lparr>TokenSource = 7::nat\<rparr>) (\<lambda>_. Inr token) p)
   in refreshCredentials (Inr \<lparr>TokenSource = 7::nat\<rparr>) (\<lambda>_. Inr token) p = (None, p') \<and>
      pending p' = [token] \<and>
      goroutine 0 3299999999999 (Inl ''down'') (\<lambda>_. Inl []) p' = None \<and>
      goroutine 0 3300000000000 (Inl ''down'') (\<lambda>_. Inl []) p' =
        Some (p'\<lparr>pending := [], clock := 3300000000000,
                 logged := [''Failed to refresh credentials: failed to get credentials: down'']\<rparr>)"
proof -
  let ?p = "start \<lparr>ProjectID = ''demo'', Location = ''us-central1'', EndpointID = ''openapi''\<rparr> 0
              :: nat Process"
  let ?token = "\<lparr>AccessToken = ''t1'', Expiry = 3600000000000\<rparr>"
  let ?p' = "snd (refreshCredentials (Inr \<lparr>TokenSource = 7::nat\<rparr>) (\<lambda>_. Inr ?token) ?p)"
  have h: "refreshCredentials (Inr \<lparr>TokenSource = 7::nat\<rparr>) (\<lambda>_. Inr ?token) ?p = (None, ?p')"
    by (simp add: refreshCredentials_def)
  from refresh_arms_one_timer [OF h] obtain creds token where
    tk: "Inr ?token = (Inr token :: string + Token)" and
    one: "pending ?p' = pending ?p @ [token]" and
    w: "\<forall>t f k. goroutine (length (pending ?p)) t f k ?p' =
          (if (if 9223372036854775807 < Expiry token - 300000000000 - clock ?p'
               then clock ?p' + 9223372036854775807
               else max (clock ?p') (Expiry token - 300000000000)) \<le> t
           then Some (case refreshCredentials f k (?p'\<lparr>pending := pending ?p, clock := t\<rparr>) of
                        (None, q) \<Rightarrow> q
                      | (Some err, q) \<Rightarrow>
                          q\<lparr>logged := logged q @ [''Failed to refresh credentials: '' @ err]\<rparr>)
           else None)"
    by (elim exE conjE)
  have len: "length (pending ?p) = 0" and c: "clock ?p' = 0" and e: "pending ?p = []"
    by (simp_all add: refreshCredentials_def start_def)
  from tk have tk': "token = ?token" by simp
  have "goroutine 0 3299999999999 (Inl ''down'') (\<lambda>_. Inl []) ?p' = None"
    using w [rule_format, of 3299999999999 "Inl ''down''" "\<lambda>_. Inl []"]
    unfolding len c tk' by simp
  moreover have "goroutine 0 3300000000000 (Inl ''down'') (\<lambda>_. Inl []) ?p' =
      Some (?p'\<lparr>pending := [], clock := 3300000000000,
               logged := [''Failed to refresh credentials: failed to get credentials: down'']\<rparr>)"
    using w [rule_format, of 3300000000000 "Inl ''down''" "\<lambda>_. Inl []"]
    unfolding len c tk' e by (simp add: refreshCredentials_def start_def)
  moreover from one len tk' have "pending ?p' = [?token]" by simp
  ultimately show ?thesis using h
    unfolding Let_def by (intro conjI)
qed

text \<open>
  Claim C2 as stated has the goroutine sleep until the deadline in every case. The
  initial refresh at instant 0 returns a token that expires after 10000000000000000000 ns
  (about 317 years): the deadline is 9999999700000000000, but the goroutine can wake at
  instant 9223372036854775807, before the deadline, and the refresh it then makes
  installs new credentials.
\<close>

theorem sleep_is_cut_short_counterexample:
  "let token = \<lparr>AccessToken = ''t1'', Expiry = 10000000000000000000\<rparr>;
       p' = snd (refreshCredentials (Inr \<lparr>TokenSource = 7::nat\<rparr>) (\<lambda>_. Inr token)
                  (start \<lparr>ProjectID = ''demo'', Location = ''us-central1'',
                          EndpointID = ''openapi''\<rparr> 0));
       q = goroutine 0 9223372036854775807 (Inr \<lparr>TokenSource = 8\<rparr>)
             (\<lambda>_. Inr \<lparr>AccessToken = ''t2'', Expiry = 10000003600000000000\<rparr>) p'
   in pending p' = [token] \<and>
      9223372036854775807 < Expiry token - 300000000000 \<and>
      q \<noteq> None \<and>
      credential (server (the q)) = Some \<lparr>TokenSource = 8\<rparr> \<and>
      clock (the q) = 9223372036854775807"
  by (simp add: Let_def goroutine_def refreshCredentials_def start_def time_defs)

text \<open>
  The process started with a one-hour token; its goroutine wakes at minute 55 and the
  refresh succeeds with a second token.
\<close>

theorem at_most_one_timer_witness:
  "let m = main_go ''demo'' 0 (Inr \<lparr>TokenSource = 7::nat\<rparr>)
             (\<lambda>_. Inr \<lparr>AccessToken = ''t1'', Expiry = 3600000000000\<rparr>) None;
       token' = \<lparr>AccessToken = ''t2'', Expiry = 7200000000000\<rparr>;
       m' = \<lparr>server = (server m)\<lparr>credential := Some \<lparr>TokenSource = 8\<rparr>\<rparr>, pending = [token'],
             clock = 3300000000000, logged = [], listening = Some '':8080'', exited = False\<rparr>
   in running m \<and> length (pending m) = 1 \<and>
      goroutine 0 3300000000000 (Inr \<lparr>TokenSource = 8\<rparr>) (\<lambda>_. Inr token') m = Some m' \<and>
      pending m' = [token']"
proof -
  let ?m = "main_go ''demo'' 0 (Inr \<lparr>TokenSource = 7::nat\<rparr>)
             (\<lambda>_. Inr \<lparr>AccessToken = ''t1'', Expiry = 3600000000000\<rparr>) None"
  let ?token' = "\<lparr>AccessToken = ''t2'', Expiry = 7200000000000\<rparr>"
  let ?m' = "\<lparr>server = (server ?m)\<lparr>credential := Some \<lparr>TokenSource = 8\<rparr>\<rparr>, pending = [?token'],
             clock = 3300000000000, logged = [], listening = Some '':8080'', exited = False\<rparr>"
  have r: "running ?m" by (rule example_running)
  have g: "goroutine 0 3300000000000 (Inr \<lparr>TokenSource = 8\<rparr>) (\<lambda>_. Inr ?token') ?m = Some ?m'"
    by (simp add: example_start goroutine_def refreshCredentials_def time_defs)
  have one: "length (pending ?m) = 1" by (simp add: example_start)
  from at_most_one_timer [where p = ?m] r g have "pending ?m' = [?token']" by blast
  with r g one show ?thesis by (simp add: Let_def)
qed

text \<open>
  The scheduled refresh of the started process fails at \<^verbatim>\<open>TokenSource.Token()\<close>.
\<close>

theorem credential_always_present_witness:
  "let m = main_go ''demo'' 0 (Inr \<lparr>TokenSource = 7::nat\<rparr>)
             (\<lambda>_. Inr \<lparr>AccessToken = ''t1'', Expiry = 3600000000000\<rparr>) None;
       m' = m\<lparr>pending := [], clock := 3300000000000,
              logged := [''Failed to refresh credentials: failed to get token: revoked'']\<rparr>
   in running m \<and> credential (server m) = Some \<lparr>TokenSource = 7\<rparr> \<and>
      goroutine 0 3300000000000 (Inr \<lparr>TokenSource = 8\<rparr>) (\<lambda>_. Inl ''revoked'') m = Some m' \<and>
      credential (server m') = Some \<lparr>TokenSource = 7\<rparr>"
proof -
  let ?m = "main_go ''demo'' 0 (Inr \<lparr>TokenSource = 7::nat\<rparr>)
             (\<lambda>_. Inr \<lparr>AccessToken = ''t1'', Expiry = 3600000000000\<rparr>) None"
  let ?m' = "?m\<lparr>pending := [], clock := 3300000000000,
              logged := [''Failed to refresh credentials: failed to get token: revoked'']\<rparr>"
  have r: "running ?m" by (rule example_running)
  have c: "credential (server ?m) = Some \<lparr>TokenSource = 7\<rparr>"
    by (simp add: example_start setupRoutes_def)
  have g: "goroutine 0 3300000000000 (Inr \<lparr>TokenSource = 8\<rparr>) (\<lambda>_. Inl ''revoked'') ?m = Some ?m'"
    by (simp add: example_start goroutine_def refreshCredentials_def time_defs)
  have e: "fst (refreshCredentials (Inr \<lparr>TokenSource = 8\<rparr>) (\<lambda>_. Inl ''revoked'') ?m) =
             Some ''failed to get token: revoked''"
    by (simp add: refreshCredentials_def)
  from credential_always_present [OF r] g e
  have "credential (server ?m') = credential (server ?m)" by blast
  with r c g show ?thesis by (simp add: Let_def)
qed

text \<open>
  The scheduled refresh of the started process fails at minute 55 because the identity
  provider is down.
\<close>

theorem failed_refresh_keeps_credential_no_retry_witness:
  "let m = main_go ''demo'' 0 (Inr \<lparr>TokenSource = 7::nat\<rparr>)
             (\<lambda>_. Inr \<lparr>AccessToken = ''t1'', Expiry = 3600000000000\<rparr>) None;
       m' = m\<lparr>pending := [], clock := 3300000000000,
              logged := [''Failed to refresh credentials: failed to get credentials: down'']\<rparr>
   in running m \<and>
      goroutine 0 3300000000000 (Inl ''down'') (\<lambda>_. Inl []) m = Some m' \<and>
      credential (server m') = credential (server m) \<and>
      pending m' = [] \<and>
      goroutine 0 3300000000001 (Inr \<lparr>TokenSource = 8\<rparr>)
        (\<lambda>_. Inr \<lparr>AccessToken = ''t2'', Expiry = 7200000000000\<rparr>) m' = None"
proof -
  let ?m = "main_go ''demo'' 0 (Inr \<lparr>TokenSource = 7::nat\<rparr>)
             (\<lambda>_. Inr \<lparr>AccessToken = ''t1'', Expiry = 3600000000000\<rparr>) None"
  let ?m' = "?m\<lparr>pending := [], clock := 3300000000000,
              logged := [''Failed to refresh credentials: failed to get credentials: down'']\<rparr>"
  have r: "running ?m" by (rule example_running)
  have g: "goroutine 0 3300000000000 (Inl ''down'') (\<lambda>_. Inl []) ?m = Some ?m'"
    by (simp add: example_start goroutine_def refreshCredentials_def time_defs)
  have e: "fst (refreshCredentials (Inl ''down'') (\<lambda>_. Inl []) ?m) =
             Some ''failed to get credentials: down''"
    by (simp add: refreshCredentials_def)
  from failed_refresh_keeps_credential_no_retry [OF r g e] r g show ?thesis
    by (simp add: Let_def)
qed

text \<open>
  Claim C1 as stated asks for a retry after a short fixed backoff. In the process
  started with a one-hour token, the refresh scheduled for minute 55 fails: the failure
  is logged, no goroutine is pending afterwards, and ten seconds later no refresh can
  run although the identity provider would now answer.
\<close>

theorem refresh_failure_is_not_retried_counterexample:
  "let m = main_go ''demo'' 0 (Inr \<lparr>TokenSource = 7::nat\<rparr>)
             (\<lambda>_. Inr \<lparr>AccessToken = ''t1'', Expiry = 3600000000000\<rparr>) None;
       m' = the (goroutine 0 3300000000000 (Inl ''down'') (\<lambda>_. Inl []) m)
   in running m \<and>
      goroutine 0 3300000000000 (Inl ''down'') (\<lambda>_. Inl []) m \<noteq> None \<and>
      logged m' = [''Failed to refresh credentials: failed to get credentials: down''] \<and>
      pending m' = [] \<and>
      goroutine 0 3310000000000 (Inr \<lparr>TokenSource = 8\<rparr>)
        (\<lambda>_. Inr \<lparr>AccessToken = ''t2'', Expiry = 7200000000000\<rparr>) m' = None"
proof -
  let ?m = "main_go ''demo'' 0 (Inr \<lparr>TokenSource = 7::nat\<rparr>)
             (\<lambda>_. Inr \<lparr>AccessToken = ''t1'', Expiry = 3600000000000\<rparr>) None"
  let ?m' = "?m\<lparr>pending := [], clock := 3300000000000,
              logged := [''Failed to refresh credentials: failed to get credentials: down'']\<rparr>"
  have r: "running ?m" by (rule example_running)
  have g: "goroutine 0 3300000000000 (Inl ''down'') (\<lambda>_. Inl []) ?m = Some ?m'"
    by (simp add: example_start goroutine_def refreshCredentials_def time_defs)
  have "goroutine 0 3310000000000 (Inr \<lparr>TokenSource = 8\<rparr>)
          (\<lambda>_. Inr \<lparr>AccessToken = ''t2'', Expiry = 7200000000000\<rparr>) ?m' = None"
    by (simp add: goroutine_def)
  with r g show ?thesis by (simp add: Let_def)
qed

theorem failed_initialization_is_fatal_witness:
  "exited (main_go ''demo'' 0 (Inr \<lparr>TokenSource = 7::nat\<rparr>) (\<lambda>_. Inl ''revoked'') None) \<and>
   listening (main_go ''demo'' 0 (Inr \<lparr>TokenSource = 7::nat\<rparr>) (\<lambda>_. Inl ''revoked'') None) = None \<and>
   routes (router (server
     (main_go ''demo'' 0 (Inr \<lparr>TokenSource = 7::nat\<rparr>) (\<lambda>_. Inl ''revoked'') None))) = []"
  using failed_initialization_is_fatal
    [of "Inr \<lparr>TokenSource = 7::nat\<rparr>" "''revoked''" "\<lambda>_. Inl ''revoked''" "''demo''" 0 None]
  by simp

theorem model_field_is_overridden_witness:
  "map (\<lambda>call. Model (Sent call))
     (snd (handleChatCompletions
        \<lparr>config = \<lparr>ProjectID = ''demo'', Location = ''us-central1'', EndpointID = ''openapi''\<rparr>,
         credential = Some \<lparr>TokenSource = 7::nat\<rparr>, router = gin_Default\<rparr>
        (Inr \<lparr>Model = ''gpt-4''\<rparr>) (\<lambda>_. Inl ''unreachable'' :: string + unit))) =
   [''google/gemini-2.0-flash-001'']"
  using model_field_is_overridden
    [of "\<lparr>config = \<lparr>ProjectID = ''demo'', Location = ''us-central1'', EndpointID = ''openapi''\<rparr>,
         credential = Some \<lparr>TokenSource = 7::nat\<rparr>, router = gin_Default\<rparr>"
        "\<lparr>TokenSource = 7::nat\<rparr>" "\<lparr>Model = ''gpt-4''\<rparr>"
        "\<lambda>_. Inl ''unreachable'' :: string + unit"]
  by simp

theorem only_model_field_is_changed_witness:
  "map Sent
     (snd (handleChatCompletions
        \<lparr>config = \<lparr>ProjectID = ''demo'', Location = ''us-central1'', EndpointID = ''openapi''\<rparr>,
         credential = Some \<lparr>TokenSource = 7::nat\<rparr>, router = gin_Default\<rparr>
        (Inr \<lparr>Model = ''gpt-4'', \<dots> = [(''user'', JString ''u1'')]\<rparr>)
        (\<lambda>_. Inl ''unreachable'' :: string + unit))) =
   [\<lparr>Model = ''google/gemini-2.0-flash-001'', \<dots> = [(''user'', JString ''u1'')]\<rparr>] \<and>
   map (\<lambda>call. member ''foo'' (requestBody chatRequestFields (Sent call)))
     (snd (handleChatCompletions
        \<lparr>config = \<lparr>ProjectID = ''demo'', Location = ''us-central1'', EndpointID = ''openapi''\<rparr>,
         credential = Some \<lparr>TokenSource = 7::nat\<rparr>, router = gin_Default\<rparr>
        (Inr \<lparr>Model = ''gpt-4'', \<dots> = [(''user'', JString ''u1'')]\<rparr>)
        (\<lambda>_. Inl ''unreachable'' :: string + unit))) = [None]"
proof -
  let ?s = "\<lparr>config = \<lparr>ProjectID = ''demo'', Location = ''us-central1'', EndpointID = ''openapi''\<rparr>,
         credential = Some \<lparr>TokenSource = 7::nat\<rparr>, router = gin_Default\<rparr>"
  let ?r = "\<lparr>Model = ''gpt-4'', \<dots> = [(''user'', JString ''u1'')]\<rparr>"
  let ?up = "\<lambda>_. Inl ''unreachable'' :: string + unit"
  have c: "credential ?s = Some \<lparr>TokenSource = 7::nat\<rparr>" by simp
  have k: "''foo'' \<noteq> ''model''" "''foo'' \<notin> fst ` set chatRequestFields"
    by (simp_all add: chatRequestFields_def)
  from only_model_field_is_changed
    [OF c, of ?r ?up "''foo''" chatRequestFields ?r ?up] k
  show ?thesis by simp
qed

text \<open>
  Claim C10 as stated has every field of the request body reach upstream. An inbound
  body with \<^verbatim>\<open>"temperature": 0\<close>, \<^verbatim>\<open>"top_k": 40\<close> and \<^verbatim>\<open>"foo": "bar"\<close> besides the
  model and the messages: the messages are in the upstream body as they came, but the
  upstream body has no \<^verbatim>\<open>top_k\<close> and no \<^verbatim>\<open>foo\<close> (the struct has no such fields) and no
  \<^verbatim>\<open>temperature\<close> (an \<^verbatim>\<open>omitempty\<close> field holding its zero value).
\<close>

theorem request_body_fields_are_lost_counterexample:
  "let body = JObject
         [(''model'', JString ''gpt-4''),
          (''messages'', JArray [JObject [(''role'', JString ''user''),
                                          (''content'', JString ''Hello'')]]),
          (''temperature'', JNumber 0), (''top_k'', JNumber 40), (''foo'', JString ''bar'')];
       calls = snd (handleChatCompletions
         \<lparr>config = \<lparr>ProjectID = ''demo'', Location = ''us-central1'', EndpointID = ''openapi''\<rparr>,
          credential = Some \<lparr>TokenSource = 7::nat\<rparr>, router = gin_Default\<rparr>
         (BindJSON chatRequestFields ''bad request'' body)
         (\<lambda>_. Inl ''unreachable'' :: string + unit));
       sent = map (\<lambda>call. requestBody chatRequestFields (Sent call)) calls
   in map (member ''messages'') sent = [member ''messages'' body] \<and>
      member ''temperature'' body = Some (JNumber 0) \<and>
      map (member ''temperature'') sent = [None] \<and>
      member ''top_k'' body = Some (JNumber 40) \<and>
      map (member ''top_k'') sent = [None] \<and>
      member ''foo'' body = Some (JString ''bar'') \<and>
      map (member ''foo'') sent = [None]"
  by (simp add: Let_def handleChatCompletions_def BindJSON_def json_Unmarshal_def
        requestBody_def json_Marshal_def chatRequestFields_def member_def lookupKey_def)

theorem upstream_outcome_is_relayed_once_witness:
  "handleChatCompletions
     \<lparr>config = \<lparr>ProjectID = ''demo'', Location = ''us-central1'', EndpointID = ''openapi''\<rparr>,
      credential = Some \<lparr>TokenSource = 7::nat\<rparr>, router = gin_Default\<rparr>
     (Inr \<lparr>Model = ''gpt-4''\<rparr>) (\<lambda>_. Inl ''status code: 503'' :: string + string) =
   ([Reply 500 (H (JObject [(''error'', JString ''status code: 503'')]))],
    [UpstreamCall
       ''https://us-central1-aiplatform.googleapis.com/v1beta1/projects/demo/locations/us-central1/endpoints/openapi''
       7 \<lparr>Model = ''google/gemini-2.0-flash-001''\<rparr>]) \<and>
   handleChatCompletions
     \<lparr>config = \<lparr>ProjectID = ''demo'', Location = ''us-central1'', EndpointID = ''openapi''\<rparr>,
      credential = Some \<lparr>TokenSource = 7::nat\<rparr>, router = gin_Default\<rparr>
     (Inr \<lparr>Model = ''gpt-4''\<rparr>) (\<lambda>_. Inr ''chatcmpl-1'' :: string + string) =
   ([Reply 200 (ResponseJSON ''chatcmpl-1'')],
    [UpstreamCall
       ''https://us-central1-aiplatform.googleapis.com/v1beta1/projects/demo/locations/us-central1/endpoints/openapi''
       7 \<lparr>Model = ''google/gemini-2.0-flash-001''\<rparr>]) \<and>
   map (wireJSON JString)
     (fst (handleChatCompletions
        \<lparr>config = \<lparr>ProjectID = ''demo'', Location = ''us-central1'', EndpointID = ''openapi''\<rparr>,
         credential = Some \<lparr>TokenSource = 7::nat\<rparr>, router = gin_Default\<rparr>
        (Inr \<lparr>Model = ''gpt-4''\<rparr>) (\<lambda>_. Inr ''chatcmpl-1'' :: string + string))) =
   [Some (JString ''chatcmpl-1'')] \<and>
   member ''foo'' (json_Marshal chatResponseFields [(''id'', JString ''chatcmpl-1'')]) = None"
proof -
  let ?s = "\<lparr>config = \<lparr>ProjectID = ''demo'', Location = ''us-central1'', EndpointID = ''openapi''\<rparr>,
      credential = Some \<lparr>TokenSource = 7::nat\<rparr>, router = gin_Default\<rparr>"
  let ?down = "\<lambda>_. Inl ''status code: 503'' :: string + string"
  let ?up = "\<lambda>_. Inr ''chatcmpl-1'' :: string + string"
  let ?call = "UpstreamCall
       ''https://us-central1-aiplatform.googleapis.com/v1beta1/projects/demo/locations/us-central1/endpoints/openapi''
       (7::nat) \<lparr>Model = ''google/gemini-2.0-flash-001''\<rparr>"
  have c: "credential ?s = Some \<lparr>TokenSource = 7::nat\<rparr>" by simp
  have k: "''foo'' \<notin> fst ` set chatResponseFields"
    by (simp add: chatResponseFields_def)
  obtain replies calls where
    h: "handleChatCompletions ?s (Inr \<lparr>Model = ''gpt-4''\<rparr>) ?down = (replies, calls)"
    by (cases "handleChatCompletions ?s (Inr \<lparr>Model = ''gpt-4''\<rparr>) ?down")
  from upstream_outcome_is_relayed_once [OF c h]
  have "replies = [Reply 500 (H (JObject [(''error'', JString ''status code: 503'')]))]"
    by simp
  moreover from h have "calls = [?call]"
    by (simp add: handleChatCompletions_def baseURL_def)
  ultimately have failure: "handleChatCompletions ?s (Inr \<lparr>Model = ''gpt-4''\<rparr>) ?down =
      ([Reply 500 (H (JObject [(''error'', JString ''status code: 503'')]))], [?call])"
    using h by simp
  obtain replies' calls' where
    h': "handleChatCompletions ?s (Inr \<lparr>Model = ''gpt-4''\<rparr>) ?up = (replies', calls')"
    by (cases "handleChatCompletions ?s (Inr \<lparr>Model = ''gpt-4''\<rparr>) ?up")
  note t = upstream_outcome_is_relayed_once
    [OF c h', of JString "''foo''" chatResponseFields "[(''id'', JString ''chatcmpl-1'')]"]
  from t have r': "replies' = [Reply 200 (ResponseJSON ''chatcmpl-1'')]"
    and w: "map (wireJSON JString) replies' = [Some (JString ''chatcmpl-1'')]"
    by blast+
  from t k have m: "member ''foo''
      (json_Marshal chatResponseFields [(''id'', JString ''chatcmpl-1'')]) = None"
    by blast
  from h' have "calls' = [?call]"
    by (simp add: handleChatCompletions_def baseURL_def)
  with r' have success: "handleChatCompletions ?s (Inr \<lparr>Model = ''gpt-4''\<rparr>) ?up =
      ([Reply 200 (ResponseJSON ''chatcmpl-1'')], [?call])"
    using h' by simp
  from w h' have "map (wireJSON JString)
      (fst (handleChatCompletions ?s (Inr \<lparr>Model = ''gpt-4''\<rparr>) ?up)) =
      [Some (JString ''chatcmpl-1'')]"
    by simp
  with failure success m show ?thesis by (intro conjI)
qed

text \<open>
  Claim C9 as stated has the upstream response body relayed unchanged. The upstream
  answers with a body that has \<^verbatim>\<open>"foo": "bar"\<close> besides an id, an object and a model:
  the handler answers 200, but the body it writes differs from the upstream body; it
  has nothing under \<^verbatim>\<open>foo\<close>, and it has \<^verbatim>\<open>"created": 0\<close>, which the upstream body did
  not have.
\<close>

theorem upstream_body_is_not_relayed_counterexample:
  "let body = JObject
         [(''id'', JString ''chatcmpl-1''), (''object'', JString ''chat.completion''),
          (''model'', JString ''google/gemini-2.0-flash-001''), (''foo'', JString ''bar'')];
       replies = fst (handleChatCompletions
         \<lparr>config = \<lparr>ProjectID = ''demo'', Location = ''us-central1'', EndpointID = ''openapi''\<rparr>,
          credential = Some \<lparr>TokenSource = 7::nat\<rparr>, router = gin_Default\<rparr>
         (Inr \<lparr>Model = ''gpt-4''\<rparr>)
         (\<lambda>_. clientResult chatResponseFields ''bad response'' (Inr body)));
       written = map (wireJSON (json_Marshal chatResponseFields)) replies
   in map (\<lambda>r. case r of Reply st b \<Rightarrow> Some st | _ \<Rightarrow> None) replies = [Some 200] \<and>
      written \<noteq> [Some body] \<and>
      member ''foo'' body = Some (JString ''bar'') \<and>
      map (map_option (member ''foo'')) written = [Some None] \<and>
      member ''created'' body = None \<and>
      map (map_option (member ''created'')) written = [Some (Some (JNumber 0))]"
  by (simp add: Let_def handleChatCompletions_def clientResult_def json_Unmarshal_def
        json_Marshal_def chatResponseFields_def member_def lookupKey_def wireJSON_def
        status_defs)

end
